theory Spec2Isabelle
  imports Main "HOL-Library.AList" "HOL-Library.Sublist"
begin

section \<open>Text\<close>

text \<open>
  A Python \<open>str\<close> is a sequence of Unicode code points; \<open>len\<close>, slicing, \<open>strip\<close> and the
  \<open>re\<close> module all count code points. Text is therefore a list of code points (natural
  numbers), and \<open>text\<close> turns a literal of the theory into that representation.
\<close>

type_synonym pystr = "nat list"

definition "text" :: "string \<Rightarrow> pystr" where
  "text s = map of_char s"

text \<open>
  \<open>isspace\<close> is CPython's \<open>Py_UNICODE_ISSPACE\<close>: the whitespace test behind both
  \<open>str.strip()\<close> without arguments and the class \<open>\s\<close> of a \<open>str\<close> pattern.
\<close>

definition isspace :: "nat \<Rightarrow> bool" where
  "isspace c \<longleftrightarrow>
     (9 \<le> c \<and> c \<le> 13) \<or> (28 \<le> c \<and> c \<le> 32) \<or> c = 133 \<or> c = 160 \<or> c = 5760
     \<or> (8192 \<le> c \<and> c \<le> 8202) \<or> c = 8232 \<or> c = 8233 \<or> c = 8239 \<or> c = 8287
     \<or> c = 12288"

definition strip :: "pystr \<Rightarrow> pystr" where
  "strip s = rev (dropWhile isspace (rev (dropWhile isspace s)))"

text \<open>\<open>sep.join(xs)\<close>.\<close>

fun join :: "pystr \<Rightarrow> pystr list \<Rightarrow> pystr" where
  "join sep [] = []"
| "join sep [x] = x"
| "join sep (x # y # ys) = x @ sep @ join sep (y # ys)"

text \<open>\<open>str(n)\<close> for a non-negative integer: its decimal digits.\<close>

fun str_nat :: "nat \<Rightarrow> pystr" where
  "str_nat n = (if n < 10 then [48 + n] else str_nat (n div 10) @ [48 + n mod 10])"

declare str_nat.simps [simp del]

section \<open>The regular expression of \<open>parse_groq_json\<close>\<close>

text \<open>
  \<open>re.search(r"```(?:json)?\s*(\{.*?\})\s*```", raw_text, flags=re.DOTALL)\<close>.

  The pattern is a sequence of items, matched by backtracking in the order of the \<open>re\<close>
  module: a greedy item tries the longer alternative first, the lazy \<open>.*?\<close> tries the
  shorter one first, and the first complete match wins. The matcher works on the rest of
  the subject; the two components of the capture are the rest of the subject where group 1
  opened and where it closed.
\<close>

datatype item =
    Lit nat          \<comment> \<open>one literal character\<close>
  | OptLit pystr     \<comment> \<open>\<open>(?:w)?\<close>, greedy\<close>
  | SpaceStar        \<comment> \<open>\<open>\s*\<close>, greedy\<close>
  | AnyLazy          \<comment> \<open>\<open>.*?\<close> under \<open>DOTALL\<close>\<close>
  | GroupOpen        \<comment> \<open>\<open>(\<close>\<close>
  | GroupClose       \<comment> \<open>\<open>)\<close>\<close>

type_synonym capture = "pystr \<times> pystr"

function (sequential) rmatch :: "item list \<Rightarrow> pystr \<Rightarrow> capture \<Rightarrow> capture option" where
  "rmatch [] s cap = Some cap"
| "rmatch (Lit c # r) [] cap = None"
| "rmatch (Lit c # r) (x # xs) cap = (if x = c then rmatch r xs cap else None)"
| "rmatch (OptLit w # r) s cap =
     (if take (length w) s = w
      then (case rmatch r (drop (length w) s) cap of
              Some m \<Rightarrow> Some m
            | None \<Rightarrow> rmatch r s cap)
      else rmatch r s cap)"
| "rmatch (SpaceStar # r) [] cap = rmatch r [] cap"
| "rmatch (SpaceStar # r) (x # xs) cap =
     (if isspace x
      then (case rmatch (SpaceStar # r) xs cap of
              Some m \<Rightarrow> Some m
            | None \<Rightarrow> rmatch r (x # xs) cap)
      else rmatch r (x # xs) cap)"
| "rmatch (AnyLazy # r) [] cap = rmatch r [] cap"
| "rmatch (AnyLazy # r) (x # xs) cap =
     (case rmatch r (x # xs) cap of
        Some m \<Rightarrow> Some m
      | None \<Rightarrow> rmatch (AnyLazy # r) xs cap)"
| "rmatch (GroupOpen # r) s cap = rmatch r s (s, snd cap)"
| "rmatch (GroupClose # r) s cap = rmatch r s (fst cap, s)"
  by pat_completeness auto
termination
  by (relation "measures [\<lambda>(p, s, c). length s, \<lambda>(p, s, c). length p]") auto

definition fence_pattern :: "item list" where
  "fence_pattern =
     [Lit 96, Lit 96, Lit 96, OptLit (text ''json''), SpaceStar,
      GroupOpen, Lit 123, AnyLazy, Lit 125, GroupClose,
      SpaceStar, Lit 96, Lit 96, Lit 96]"

text \<open>\<open>re.search\<close>: the match at the leftmost start position that has one; the result is
  \<open>match.group(1)\<close>.\<close>

fun re_search :: "item list \<Rightarrow> pystr \<Rightarrow> pystr option" where
  "re_search p [] =
     (case rmatch p [] ([], []) of
        Some (a, b) \<Rightarrow> Some (take (length a - length b) a)
      | None \<Rightarrow> None)"
| "re_search p (x # xs) =
     (case rmatch p (x # xs) ([], []) of
        Some (a, b) \<Rightarrow> Some (take (length a - length b) a)
      | None \<Rightarrow> re_search p xs)"

section \<open>The JSON decoder\<close>

text \<open>
  \<open>json.loads\<close> with its default arguments, as the decoder of the standard library reads a
  \<open>str\<close>: objects become dictionaries (a later duplicate key overwrites the value and keeps
  the first position), arrays lists, strings text, a number without fraction and exponent
  an integer. A number with a fraction or an exponent and the constants \<open>NaN\<close>,
  \<open>Infinity\<close> and \<open>-Infinity\<close> become floats there; the model keeps their literal, since
  floating point arithmetic is no part of it. The limits of the interpreter (recursion
  depth, the digit limit of \<open>int\<close>) are not modelled.
\<close>

datatype json =
    JObject "(pystr \<times> json) list"
  | JArray "json list"
  | JString pystr
  | JInt int
  | JFloat pystr
  | JBool bool
  | JNull

text \<open>
  The exceptions of a run. All but the last two derive from \<open>Exception\<close>;
  \<open>KeyboardInterrupt\<close> and \<open>SystemExit\<close> derive from \<open>BaseException\<close> only, so a handler
  \<open>except Exception\<close> does not catch them.
\<close>

datatype error =
    JSONDecodeError          \<comment> \<open>the spec's ParseError\<close>
  | ModelCallError pystr     \<comment> \<open>an exception of the remote call, with its message\<close>
  | AttributeError           \<comment> \<open>\<open>.get\<close> on a value that is no dictionary\<close>
  | OtherException pystr     \<comment> \<open>any other exception that derives from \<open>Exception\<close>\<close>
  | KeyboardInterrupt
  | SystemExit

text \<open>\<open>isinstance(e, Exception)\<close>.\<close>

fun is_Exception :: "error \<Rightarrow> bool" where
  "is_Exception KeyboardInterrupt = False"
| "is_Exception SystemExit = False"
| "is_Exception e = True"

definition json_ws :: "nat \<Rightarrow> bool" where
  "json_ws c \<longleftrightarrow> c = 32 \<or> c = 9 \<or> c = 10 \<or> c = 13"

definition skip_ws :: "pystr \<Rightarrow> pystr" where
  "skip_ws s = dropWhile json_ws s"

definition is_digit :: "nat \<Rightarrow> bool" where
  "is_digit c \<longleftrightarrow> 48 \<le> c \<and> c \<le> 57"

definition hexval :: "nat \<Rightarrow> nat option" where
  "hexval c =
     (if 48 \<le> c \<and> c \<le> 57 then Some (c - 48)
      else if 97 \<le> c \<and> c \<le> 102 then Some (c - 87)
      else if 65 \<le> c \<and> c \<le> 70 then Some (c - 55)
      else None)"

text \<open>The four hexadecimal digits of a \<open>\uXXXX\<close> escape.\<close>

definition hex4 :: "pystr \<Rightarrow> nat option" where
  "hex4 s =
     (case s of
        a # b # c # d # _ \<Rightarrow>
          (case (hexval a, hexval b, hexval c, hexval d) of
             (Some x, Some y, Some z, Some w) \<Rightarrow> Some (((x * 16 + y) * 16 + z) * 16 + w)
           | _ \<Rightarrow> None)
      | _ \<Rightarrow> None)"

definition unescape :: "nat \<Rightarrow> nat option" where
  "unescape e =
     (if e = 34 \<or> e = 92 \<or> e = 47 then Some e
      else if e = 98 then Some 8
      else if e = 102 then Some 12
      else if e = 110 then Some 10
      else if e = 114 then Some 13
      else if e = 116 then Some 9
      else None)"

definition low_surrogate_after :: "pystr \<Rightarrow> nat option" where
  "low_surrogate_after s =
     (case s of
        bs # uu # t \<Rightarrow>
          (if bs = 92 \<and> uu = 117
           then (case hex4 t of
                   Some c2 \<Rightarrow> (if 56320 \<le> c2 \<and> c2 \<le> 57343 then Some c2 else None)
                 | None \<Rightarrow> None)
           else None)
      | _ \<Rightarrow> None)"

text \<open>
  \<open>scanstring\<close> in strict mode, from the character after the opening quote: the decoded
  text and the rest of the input after the closing quote.
\<close>

function (sequential) scanstring :: "pystr \<Rightarrow> (pystr \<times> pystr) option" where
  "scanstring [] = None"
| "scanstring (c # s) =
     (if c = 34 then Some ([], s)
      else if c = 92 then
        (case s of
           [] \<Rightarrow> None
         | e # s' \<Rightarrow>
             (if e = 117 then
                (case hex4 s' of
                   None \<Rightarrow> None
                 | Some uni \<Rightarrow>
                     (case (if 55296 \<le> uni \<and> uni \<le> 56319
                            then low_surrogate_after (drop 4 s') else None) of
                        Some c2 \<Rightarrow>
                          map_option (\<lambda>(t, r). ((65536 + (uni - 55296) * 1024 + (c2 - 56320)) # t, r))
                            (scanstring (drop 10 s'))
                      | None \<Rightarrow>
                          map_option (\<lambda>(t, r). (uni # t, r)) (scanstring (drop 4 s'))))
              else
                (case unescape e of
                   None \<Rightarrow> None
                 | Some ch \<Rightarrow> map_option (\<lambda>(t, r). (ch # t, r)) (scanstring s'))))
      else if c < 32 then None
      else map_option (\<lambda>(t, r). (c # t, r)) (scanstring s))"
  by pat_completeness auto
termination
  by (relation "measure length") auto

text \<open>The decimal value of a run of digits.\<close>

definition digits_value :: "pystr \<Rightarrow> int" where
  "digits_value ds = foldl (\<lambda>a d. 10 * a + int (d - 48)) 0 ds"

text \<open>
  \<open>NUMBER_RE = (-?(?:0|[1-9][0-9]*))(\.[0-9]+)?([eE][-+]?[0-9]+)?\<close>, matched at the start
  of the input: the integer part, then a fraction and an exponent where each is complete.
\<close>

definition match_int_part :: "pystr \<Rightarrow> (pystr \<times> pystr) option" where
  "match_int_part s =
     (case s of
        [] \<Rightarrow> None
      | d # t \<Rightarrow>
          (if d = 48 then Some ([48], t)
           else if 49 \<le> d \<and> d \<le> 57
           then Some (d # takeWhile is_digit t, dropWhile is_digit t)
           else None))"

definition match_frac :: "pystr \<Rightarrow> pystr \<times> pystr" where
  "match_frac s =
     (case s of
        dot # d # t \<Rightarrow>
          (if dot = 46 \<and> is_digit d
           then (dot # takeWhile is_digit (d # t), dropWhile is_digit (d # t))
           else ([], s))
      | _ \<Rightarrow> ([], s))"

definition match_exp :: "pystr \<Rightarrow> pystr \<times> pystr" where
  "match_exp s =
     (case s of
        [] \<Rightarrow> ([], s)
      | e # t \<Rightarrow>
          (if e = 101 \<or> e = 69 then
             (let (sgn, t') = (case t of
                                 [] \<Rightarrow> ([], t)
                               | c # t'' \<Rightarrow> if c = 45 \<or> c = 43 then ([c], t'') else ([], t))
              in (case t' of
                    [] \<Rightarrow> ([], s)
                  | d # _ \<Rightarrow>
                      if is_digit d
                      then (e # sgn @ takeWhile is_digit t', dropWhile is_digit t')
                      else ([], s)))
           else ([], s)))"

definition match_number :: "pystr \<Rightarrow> (json \<times> pystr) option" where
  "match_number s =
     (let (sgn, s1) = (case s of
                         [] \<Rightarrow> ([], s)
                       | c # t \<Rightarrow> if c = 45 then ([c], t) else ([], s))
      in (case match_int_part s1 of
            None \<Rightarrow> None
          | Some (ip, s2) \<Rightarrow>
              (let (frac, s3) = match_frac s2; (ex, s4) = match_exp s3
               in if frac = [] \<and> ex = []
                  then Some (JInt (if sgn = [] then digits_value ip else - digits_value ip), s4)
                  else Some (JFloat (sgn @ ip @ frac @ ex), s4))))"

text \<open>\<open>dict(pairs)\<close>: the pairs in order, a repeated key overwriting its value in place.\<close>

definition dict_of :: "(pystr \<times> json) list \<Rightarrow> (pystr \<times> json) list" where
  "dict_of pairs = foldl (\<lambda>d (k, v). AList.update k v d) [] pairs"

text \<open>A keyword of the grammar at the start of the input.\<close>

definition starts_with :: "pystr \<Rightarrow> pystr \<Rightarrow> bool" where
  "starts_with w s \<longleftrightarrow> take (length w) s = w"

text \<open>
  \<open>scan_once\<close>, \<open>JSONObject\<close> and \<open>JSONArray\<close>. The first argument bounds the number of
  calls; each call reads at least one character before the next, so the length of the
  input is enough. \<open>json_members\<close> starts after the opening quote of a key,
  \<open>json_elements\<close> at the first character of an element.
\<close>

fun scan_once :: "nat \<Rightarrow> pystr \<Rightarrow> (json \<times> pystr) option"
and json_members :: "nat \<Rightarrow> pystr \<Rightarrow> (pystr \<times> json) list \<Rightarrow> (json \<times> pystr) option"
and json_elements :: "nat \<Rightarrow> pystr \<Rightarrow> json list \<Rightarrow> (json \<times> pystr) option" where
  "scan_once 0 s = None"
| "scan_once (Suc n) [] = None"
| "scan_once (Suc n) (c # s) =
     (if c = 34 then map_option (\<lambda>(t, r). (JString t, r)) (scanstring s)
      else if c = 123 then
        (case skip_ws s of
           [] \<Rightarrow> None
         | d # s' \<Rightarrow>
             if d = 125 then Some (JObject [], s')
             else if d = 34 then json_members n s' []
             else None)
      else if c = 91 then
        (case skip_ws s of
           [] \<Rightarrow> None
         | d # s' \<Rightarrow>
             if d = 93 then Some (JArray [], s')
             else json_elements n (d # s') [])
      else if c = 110 \<and> starts_with (text ''null'') (c # s) then Some (JNull, drop 3 s)
      else if c = 116 \<and> starts_with (text ''true'') (c # s) then Some (JBool True, drop 3 s)
      else if c = 102 \<and> starts_with (text ''false'') (c # s) then Some (JBool False, drop 4 s)
      else (case match_number (c # s) of
              Some m \<Rightarrow> Some m
            | None \<Rightarrow>
                if c = 78 \<and> starts_with (text ''NaN'') (c # s)
                then Some (JFloat (text ''NaN''), drop 2 s)
                else if c = 73 \<and> starts_with (text ''Infinity'') (c # s)
                then Some (JFloat (text ''Infinity''), drop 7 s)
                else if c = 45 \<and> starts_with (text ''-Infinity'') (c # s)
                then Some (JFloat (text ''-Infinity''), drop 8 s)
                else None))"
| "json_members 0 s pairs = None"
| "json_members (Suc n) s pairs =
     (case scanstring s of
        None \<Rightarrow> None
      | Some (key, s1) \<Rightarrow>
          (case skip_ws s1 of
             [] \<Rightarrow> None
           | colon # s2 \<Rightarrow>
               if colon \<noteq> 58 then None
               else (case scan_once n (skip_ws s2) of
                       None \<Rightarrow> None
                     | Some (v, s3) \<Rightarrow>
                         (case skip_ws s3 of
                            [] \<Rightarrow> None
                          | d # s4 \<Rightarrow>
                              if d = 125 then Some (JObject (dict_of (pairs @ [(key, v)])), s4)
                              else if d = 44 then
                                (case skip_ws s4 of
                                   [] \<Rightarrow> None
                                 | q # s5 \<Rightarrow>
                                     if q = 34 then json_members n s5 (pairs @ [(key, v)])
                                     else None)
                              else None))))"
| "json_elements 0 s vs = None"
| "json_elements (Suc n) s vs =
     (case scan_once n s of
        None \<Rightarrow> None
      | Some (v, s1) \<Rightarrow>
          (case skip_ws s1 of
             [] \<Rightarrow> None
           | d # s2 \<Rightarrow>
               if d = 93 then Some (JArray (vs @ [v]), s2)
               else if d = 44 then json_elements n (skip_ws s2) (vs @ [v])
               else None))"

text \<open>\<open>json.loads(s)\<close>: one value between optional whitespace, and nothing after it.\<close>

definition json_loads :: "pystr \<Rightarrow> error + json" where
  "json_loads s =
     (case scan_once (Suc (length s)) (skip_ws s) of
        None \<Rightarrow> Inl JSONDecodeError
      | Some (v, r) \<Rightarrow> if skip_ws r = [] then Inr v else Inl JSONDecodeError)"

section \<open>Step 2: structured extraction\<close>

text \<open>The candidate JSON text of a reply: group 1 of the fence, else the stripped reply.\<close>

definition candidate :: "pystr \<Rightarrow> pystr" where
  "candidate raw_text =
     (case re_search fence_pattern raw_text of
        Some json_text \<Rightarrow> json_text
      | None \<Rightarrow> strip raw_text)"

definition parse_groq_json :: "pystr \<Rightarrow> error + json" where
  "parse_groq_json raw_text = json_loads (candidate raw_text)"

text \<open>
  The remote chat completion is a collaborator outside the program: \<open>create\<close> takes the
  state of the outside world and the request, and gives the reply text (or the exception
  of the call) and the new state. The request carries the two message contents and the
  model name; the sampling temperature is a constant of the call.
\<close>

record PaperRecord =
  title :: pystr
  url :: pystr
  abstract :: pystr

record request =
  system_content :: pystr
  user_content :: pystr
  model :: pystr

definition prompt :: "PaperRecord \<Rightarrow> pystr" where
  "prompt paper =
     text ''\<newline>Extract the following fields from this NBER Industrial Organization paper.\<newline>Return valid JSON only.\<newline>\<newline>Fields:\<newline>- research_question\<newline>- method\<newline>- data\<newline>- main_result (one sentence)\<newline>\<newline>TITLE:\<newline>''
     @ title paper @ text ''\<newline>\<newline>ABSTRACT:\<newline>'' @ abstract paper @ text ''\<newline>''"

definition chat_request :: "PaperRecord \<Rightarrow> request" where
  "chat_request paper =
     \<lparr>system_content = text ''You extract structured information from economics papers.'',
      user_content = prompt paper,
      model = text ''llama-3.3-70b-versatile''\<rparr>"

definition summarize_with_groq ::
  "('w \<Rightarrow> request \<Rightarrow> (error + pystr) \<times> 'w) \<Rightarrow> 'w \<Rightarrow> PaperRecord \<Rightarrow> (error + json) \<times> 'w" where
  "summarize_with_groq create w paper =
     (case create w (chat_request paper) of
        (Inl e, w') \<Rightarrow> (Inl e, w')
      | (Inr raw_content, w') \<Rightarrow> (parse_groq_json raw_content, w'))"

section \<open>Step 1: the feed\<close>

text \<open>
  \<open>BeautifulSoup(html_text, "html.parser").get_text(strip=True)\<close>. Building the tree is the
  work of the library's parser: \<open>soup\<close> gives, for a text, the descendants of its parse
  tree in document order. A descendant is a tag or a string, and a string has a class:
  plain text is a \<open>NavigableString\<close>, a CDATA section a \<open>CData\<close>; comments, declarations,
  doctypes, processing instructions and the text inside \<open>script\<close>, \<open>style\<close> and \<open>template\<close>
  have classes of their own. \<open>get_text\<close> goes through the descendants, keeps the strings
  whose class is exactly \<open>NavigableString\<close> or \<open>CData\<close>, strips each of them, drops those
  that become empty and joins the rest with the empty separator.
\<close>

datatype descendant =
    Tag pystr                \<comment> \<open>a tag, with its name\<close>
  | NavigableString pystr
  | CData pystr
  | OtherString pystr        \<comment> \<open>a string of any other class\<close>

fun all_strings_strip :: "descendant list \<Rightarrow> pystr list" where
  "all_strings_strip [] = []"
| "all_strings_strip (NavigableString t # ds) =
     (if strip t = [] then all_strings_strip ds else strip t # all_strings_strip ds)"
| "all_strings_strip (CData t # ds) =
     (if strip t = [] then all_strings_strip ds else strip t # all_strings_strip ds)"
| "all_strings_strip (Tag n # ds) = all_strings_strip ds"
| "all_strings_strip (OtherString t # ds) = all_strings_strip ds"

definition get_text_strip :: "descendant list \<Rightarrow> pystr" where
  "get_text_strip ds = concat (all_strings_strip ds)"

definition clean_html :: "(pystr \<Rightarrow> descendant list) \<Rightarrow> pystr \<Rightarrow> pystr" where
  "clean_html soup html_text = get_text_strip (soup html_text)"

record FeedEntry =
  entry_title :: pystr
  entry_link :: pystr
  entry_summary :: pystr

fun fetch_new_io_papers :: "(pystr \<Rightarrow> descendant list) \<Rightarrow> FeedEntry list \<Rightarrow> PaperRecord list" where
  "fetch_new_io_papers soup [] = []"
| "fetch_new_io_papers soup (entry # entries) =
     \<lparr>title = entry_title entry, url = entry_link entry,
      abstract = clean_html soup (entry_summary entry)\<rparr> # fetch_new_io_papers soup entries"

section \<open>Step 3: the aggregated email\<close>

record DigestEntry =
  paper :: PaperRecord
  summary :: json

record Report =
  subject :: pystr
  body :: pystr

text \<open>
  A replacement field of an f-string renders a \<open>str\<close> as itself. For any other value it is
  \<open>str()\<close> of the value, a function of the interpreter that the composer takes as
  \<open>repr\<close>.
\<close>

definition format_value :: "(json \<Rightarrow> pystr) \<Rightarrow> json \<Rightarrow> pystr" where
  "format_value repr v = (case v of JString s \<Rightarrow> s | _ \<Rightarrow> repr v)"

text \<open>\<open>f"{summary.get(key, 'N/A')}"\<close> on a dictionary.\<close>

definition get_or_na :: "(json \<Rightarrow> pystr) \<Rightarrow> (pystr \<times> json) list \<Rightarrow> pystr \<Rightarrow> pystr" where
  "get_or_na repr d key =
     (case map_of d key of
        None \<Rightarrow> text ''N/A''
      | Some v \<Rightarrow> format_value repr v)"

text \<open>
  The loop over \<open>enumerate(papers_summaries, 1)\<close>: \<open>i\<close> is the running number,
  \<open>body_lines\<close> the list built so far. \<open>summary.get\<close> raises \<open>AttributeError\<close> on a value
  that is no dictionary.
\<close>

fun email_lines ::
  "(json \<Rightarrow> pystr) \<Rightarrow> nat \<Rightarrow> DigestEntry list \<Rightarrow> pystr list \<Rightarrow> error + pystr list" where
  "email_lines repr i [] body_lines = Inr body_lines"
| "email_lines repr i (ps # rest) body_lines =
     (case summary ps of
        JObject d \<Rightarrow>
          email_lines repr (Suc i) rest
            (body_lines @
             [str_nat i @ text ''. '' @ title (paper ps),
              text ''URL: '' @ url (paper ps),
              text ''Research question: '' @ get_or_na repr d (text ''research_question''),
              text ''Method: '' @ get_or_na repr d (text ''method''),
              text ''Data: '' @ get_or_na repr d (text ''data''),
              text ''Main result: '' @ get_or_na repr d (text ''main_result''),
              text ''\<newline>''])
      | _ \<Rightarrow> Inl AttributeError)"

text \<open>The general formatter: the part of \<open>build_email\<close> after the test for the empty list.\<close>

definition build_email_nonempty :: "(json \<Rightarrow> pystr) \<Rightarrow> DigestEntry list \<Rightarrow> error + Report" where
  "build_email_nonempty repr papers_summaries =
     (case email_lines repr 1 papers_summaries
             [text ''This week's NBER Industrial Organization papers:\<newline>''] of
        Inl e \<Rightarrow> Inl e
      | Inr body_lines \<Rightarrow>
          Inr \<lparr>subject = text ''NBER IO Digest: '' @ str_nat (length papers_summaries)
                           @ text '' new papers'',
               body = join (text ''\<newline>'') body_lines\<rparr>)"

definition build_email :: "(json \<Rightarrow> pystr) \<Rightarrow> DigestEntry list \<Rightarrow> error + Report" where
  "build_email repr papers_summaries =
     (if papers_summaries = [] then
        Inr \<lparr>subject = text ''NBER IO Digest: No new papers this week'',
             body = text ''There are no new Industrial Organization papers this week.''\<rparr>
      else build_email_nonempty repr papers_summaries)"

section \<open>The main workflow\<close>

text \<open>
  The lines that \<open>main\<close> prints: \<open>Failed to summarize {title}: {e}\<close> and
  \<open>Email sent: {subject}\<close>.
\<close>

datatype log_line = Failed_to_summarize pystr error | Email_sent pystr

text \<open>
  The loop of \<open>main\<close>: \<open>try\<close> the extraction of each paper in turn; on success append the
  pair; on an exception that \<open>except Exception\<close> catches, print the line and go on. An
  exception that the handler does not catch, and an exception of the \<open>print\<close> in the
  handler, leave the loop: the result is then that exception. \<open>print_line\<close> is the
  \<open>print\<close> of the interpreter, which writes to the outside world and may raise; \<open>out\<close> are
  the lines written so far.
\<close>

fun summarize_papers ::
  "('w \<Rightarrow> request \<Rightarrow> (error + pystr) \<times> 'w) \<Rightarrow> ('w \<Rightarrow> log_line \<Rightarrow> (error + unit) \<times> 'w)
     \<Rightarrow> 'w \<Rightarrow> PaperRecord list \<Rightarrow> DigestEntry list \<Rightarrow> log_line list
     \<Rightarrow> (error + DigestEntry list) \<times> log_line list \<times> 'w" where
  "summarize_papers create print_line w [] papers_summaries out = (Inr papers_summaries, out, w)"
| "summarize_papers create print_line w (p # papers) papers_summaries out =
     (case summarize_with_groq create w p of
        (Inr s, w') \<Rightarrow>
          summarize_papers create print_line w' papers
            (papers_summaries @ [\<lparr>paper = p, summary = s\<rparr>]) out
      | (Inl e, w') \<Rightarrow>
          if is_Exception e then
            (case print_line w' (Failed_to_summarize (title p) e) of
               (Inr u, w'') \<Rightarrow>
                 summarize_papers create print_line w'' papers papers_summaries
                   (out @ [Failed_to_summarize (title p) e])
             | (Inl e', w'') \<Rightarrow> (Inl e', out, w''))
          else (Inl e, out, w'))"

text \<open>
  \<open>main\<close>. The entries of the parsed feed and the delivery of the mail come from outside:
  \<open>feed\<close> is the list of entries that the feed parser returns, \<open>send\<close> the delivery
  (\<open>send_email\<close>), which changes the outside world and may raise. Nothing in \<open>main\<close>
  catches an exception that leaves the loop, an exception of \<open>build_email\<close>, of the
  delivery or of the last \<open>print\<close>.
\<close>

definition main ::
  "('w \<Rightarrow> request \<Rightarrow> (error + pystr) \<times> 'w) \<Rightarrow> ('w \<Rightarrow> log_line \<Rightarrow> (error + unit) \<times> 'w)
     \<Rightarrow> ('w \<Rightarrow> pystr \<Rightarrow> pystr \<Rightarrow> (error + unit) \<times> 'w) \<Rightarrow> (pystr \<Rightarrow> descendant list)
     \<Rightarrow> (json \<Rightarrow> pystr) \<Rightarrow> 'w \<Rightarrow> FeedEntry list \<Rightarrow> (error + unit) \<times> log_line list \<times> 'w" where
  "main create print_line send soup repr w feed =
     (case summarize_papers create print_line w (fetch_new_io_papers soup feed) [] [] of
        (Inl e, out, w1) \<Rightarrow> (Inl e, out, w1)
      | (Inr papers_summaries, out, w1) \<Rightarrow>
          (case build_email repr papers_summaries of
             Inl e \<Rightarrow> (Inl e, out, w1)
           | Inr email_content \<Rightarrow>
               (case send w1 (subject email_content) (body email_content) of
                  (Inl e, w2) \<Rightarrow> (Inl e, out, w2)
                | (Inr u, w2) \<Rightarrow>
                    (case print_line w2 (Email_sent (subject email_content)) of
                       (Inl e, w3) \<Rightarrow> (Inl e, out, w3)
                     | (Inr u', w3) \<Rightarrow>
                         (Inr (), out @ [Email_sent (subject email_content)], w3)))))"

section \<open>The report as the specification describes it\<close>

text \<open>The schema: the four fields in their fixed order, each with the label of its line.\<close>

definition schema :: "(pystr \<times> pystr) list" where
  "schema =
     [(text ''research_question'', text ''Research question: ''),
      (text ''method'', text ''Method: ''),
      (text ''data'', text ''Data: ''),
      (text ''main_result'', text ''Main result: '')]"

definition is_object :: "json \<Rightarrow> bool" where
  "is_object v = (case v of JObject d \<Rightarrow> True | _ \<Rightarrow> False)"

definition dict_items :: "json \<Rightarrow> (pystr \<times> json) list" where
  "dict_items v = (case v of JObject d \<Rightarrow> d | _ \<Rightarrow> [])"

text \<open>The labelled line of one schema field: the value if the field is present, else \<open>N/A\<close>.\<close>

definition field_line :: "(json \<Rightarrow> pystr) \<Rightarrow> json \<Rightarrow> pystr \<times> pystr \<Rightarrow> pystr" where
  "field_line repr v f =
     snd f @ (case map_of (dict_items v) (fst f) of
                None \<Rightarrow> text ''N/A''
              | Some x \<Rightarrow> format_value repr x)"

text \<open>The numbered block of an entry: number and title, URL, and the schema's lines.\<close>

definition block_lines :: "(json \<Rightarrow> pystr) \<Rightarrow> nat \<times> DigestEntry \<Rightarrow> pystr list" where
  "block_lines repr ie =
     (str_nat (fst ie) @ text ''. '' @ title (paper (snd ie)))
     # (text ''URL: '' @ url (paper (snd ie)))
     # map (field_line repr (summary (snd ie))) schema"

definition block_text :: "(json \<Rightarrow> pystr) \<Rightarrow> nat \<times> DigestEntry \<Rightarrow> pystr" where
  "block_text repr ie = join (text ''\<newline>'') (block_lines repr ie)"

definition header_sentence :: pystr where
  "header_sentence = text ''This week's NBER Industrial Organization papers:''"







text \<open>A scripted collaborator, for examples: the world is the list of replies to come.\<close>

fun scripted :: "(error + pystr) list \<Rightarrow> request \<Rightarrow> (error + pystr) \<times> (error + pystr) list" where
  "scripted [] req = (Inl (ModelCallError []), [])"
| "scripted (r # rs) req = (r, rs)"

section \<open>Example data\<close>

text \<open>A rendering of the values that are no text, for examples that contain none.\<close>

definition no_repr :: "json \<Rightarrow> pystr" where
  "no_repr v = []"

definition paper_a :: PaperRecord where
  "paper_a = \<lparr>title = text ''Merger Effects in Airlines'', url = text ''https://x/1'',
              abstract = text ''We study...''\<rparr>"

definition paper_b :: PaperRecord where
  "paper_b = \<lparr>title = text ''Entry and Prices'', url = text ''https://x/2'',
              abstract = text ''We show...''\<rparr>"


definition summary_a :: json where
  "summary_a =
     JObject [(text ''research_question'', JString (text ''Q'')),
              (text ''method'', JString (text ''M'')),
              (text ''data'', JString (text ''D'')),
              (text ''main_result'', JString (text ''R''))]"

text \<open>A summary without two of the fields, its keys in another order than the schema's.\<close>

definition summary_b :: json where
  "summary_b =
     JObject [(text ''main_result'', JString (text ''R2'')),
              (text ''method'', JString (text ''M2''))]"

definition summary_b' :: json where
  "summary_b' =
     JObject [(text ''method'', JString (text ''M2'')),
              (text ''main_result'', JString (text ''R2''))]"

definition entry_a :: DigestEntry where
  "entry_a = \<lparr>paper = paper_a, summary = summary_a\<rparr>"

definition entry_b :: DigestEntry where
  "entry_b = \<lparr>paper = paper_b, summary = summary_b\<rparr>"

definition entry_b' :: DigestEntry where
  "entry_b' = \<lparr>paper = paper_b, summary = summary_b'\<rparr>"

definition body_ab :: pystr where
  "body_ab = text ''This week's NBER Industrial Organization papers:\<newline>\<newline>1. Merger Effects in Airlines\<newline>URL: https://x/1\<newline>Research question: Q\<newline>Method: M\<newline>Data: D\<newline>Main result: R\<newline>\<newline>\<newline>2. Entry and Prices\<newline>URL: https://x/2\<newline>Research question: N/A\<newline>Method: M2\<newline>Data: N/A\<newline>Main result: R2\<newline>\<newline>''"

text \<open>What the composer reads of an entry.\<close>

definition digest_view :: "(json \<Rightarrow> pystr) \<Rightarrow> DigestEntry \<Rightarrow> pystr \<times> pystr \<times> bool \<times> pystr list" where
  "digest_view repr e =
     (title (paper e), url (paper e), is_object (summary e),
      map (field_line repr (summary e)) schema)"

text \<open>A delivery that always succeeds and leaves the world as it is.\<close>

definition send_ok :: "'w \<Rightarrow> pystr \<Rightarrow> pystr \<Rightarrow> (error + unit) \<times> 'w" where
  "send_ok w subj bdy = (Inr (), w)"

text \<open>A \<open>print\<close> that always succeeds and leaves the world as it is.\<close>

definition print_ok :: "'w \<Rightarrow> log_line \<Rightarrow> (error + unit) \<times> 'w" where
  "print_ok w l = (Inr (), w)"

definition feed_b :: "FeedEntry list" where
  "feed_b = [\<lparr>entry_title = text ''Entry and Prices'', entry_link = text ''https://x/2'',
             entry_summary = text ''<p>We show...</p>''\<rparr>]"

text \<open>The tree of the one paragraph \<open><p>We show...</p>\<close>.\<close>

definition soup_b :: "pystr \<Rightarrow> descendant list" where
  "soup_b html_text = [Tag (text ''p''), NavigableString (text ''We show...'')]"



section \<open>The fence, as the specification describes it\<close>




text \<open>The text starts with a closing brace, optional whitespace and three backticks.\<close>

definition closes :: "pystr \<Rightarrow> bool" where
  "closes s =
     (case s of
        [] \<Rightarrow> False
      | c # t \<Rightarrow> c = 125 \<and> take 3 (dropWhile isspace t) = [96, 96, 96])"


text \<open>The rest of the text after the first closing brace that \<open>closes\<close>.\<close>

fun find_close :: "pystr \<Rightarrow> pystr option" where
  "find_close [] = None"
| "find_close (c # t) = (if closes (c # t) then Some t else find_close t)"

text \<open>The text without a leading tag \<open>json\<close>.\<close>

definition after_tag :: "pystr \<Rightarrow> pystr" where
  "after_tag s = (if take 4 s = text ''json'' then drop 4 s else s)"

text \<open>Group 1 of the match of the pattern at the start of the text, read off the pattern
  without backtracking.\<close>

definition fence_at :: "pystr \<Rightarrow> pystr option" where
  "fence_at s =
     (if take 3 s = [96, 96, 96] then
        (case dropWhile isspace (after_tag (drop 3 s)) of
           [] \<Rightarrow> None
         | c # inner \<Rightarrow>
             if c = 123 then
               (case find_close inner of
                  None \<Rightarrow> None
                | Some rest \<Rightarrow> Some (take (Suc (length inner) - length rest) (c # inner)))
             else None)
      else None)"

fun first_fence :: "pystr \<Rightarrow> pystr option" where
  "first_fence [] = None"
| "first_fence (x # xs) =
     (case fence_at (x # xs) of Some g \<Rightarrow> Some g | None \<Rightarrow> first_fence xs)"







section \<open>The composer\<close>

lemma join_Cons: "join sep (x # xs) = x @ concat (map (\<lambda>y. sep @ y) xs)"
  by (induction xs arbitrary: x) auto

lemma email_lines_objects:
  "\<forall>e\<in>set es. is_object (summary e) \<Longrightarrow>
   email_lines repr i es acc =
     Inr (acc @ concat (map (\<lambda>ie. block_lines repr ie @ [text ''\<newline>'']) (enumerate i es)))"
proof (induction es arbitrary: i acc)
  case Nil
  then show ?case by simp
next
  case (Cons e es)
  then obtain d where d: "summary e = JObject d"
    by (cases "summary e") (auto simp: is_object_def)
  have "\<forall>e\<in>set es. is_object (summary e)" using Cons.prems by simp
  from Cons.IH[OF this] d show ?case
    by (simp add: block_lines_def field_line_def dict_items_def get_or_na_def schema_def)
qed

lemma email_lines_not_object:
  "\<exists>e\<in>set es. \<not> is_object (summary e) \<Longrightarrow> email_lines repr i es acc = Inl AttributeError"
proof (induction es arbitrary: i acc)
  case Nil
  then show ?case by simp
next
  case (Cons e es)
  show ?case
  proof (cases "summary e")
    case (JObject d)
    with Cons.prems have "\<exists>e\<in>set es. \<not> is_object (summary e)" by (simp add: is_object_def)
    from Cons.IH[OF this] JObject show ?thesis by simp
  qed simp_all
qed

text \<open>
  C5. For the empty list the report is the fixed subject and the one fixed sentence. It is
  a case of its own: the general formatter on the empty list would give a subject with the
  count 0 and the header line as body.
\<close>

theorem build_email_empty:
  "build_email repr [] =
     Inr \<lparr>subject = text ''NBER IO Digest: No new papers this week'',
          body = text ''There are no new Industrial Organization papers this week.''\<rparr>
   \<and> build_email_nonempty repr [] =
     Inr \<lparr>subject = text ''NBER IO Digest: 0 new papers'',
          body = text ''This week's NBER Industrial Organization papers:\<newline>''\<rparr>
   \<and> build_email repr [] \<noteq> build_email_nonempty repr []"
  by (simp add: build_email_def build_email_nonempty_def str_nat.simps text_def)


lemma concat_map_sep:
  "ls \<noteq> [] \<Longrightarrow> concat (map (\<lambda>y. sep @ y) ls) = sep @ join sep ls"
  by (cases ls) (simp_all add: join_Cons)

lemma body_lines_text:
  assumes "\<And>b. f b \<noteq> []"
  shows "join nl (h # concat (map (\<lambda>b. f b @ [nl]) bs)) =
         h @ concat (map (\<lambda>b. nl @ join nl (f b) @ nl @ nl) bs)"
proof -
  have "concat (map (\<lambda>y. nl @ y) (concat (map (\<lambda>b. f b @ [nl]) bs))) =
        concat (map (\<lambda>b. nl @ join nl (f b) @ nl @ nl) bs)"
    by (induction bs) (simp_all add: concat_map_sep assms)
  then show ?thesis by (simp add: join_Cons)
qed

lemma concat_blocks_join:
  "bs \<noteq> [] \<Longrightarrow>
   concat (map (\<lambda>b. nl @ g b @ nl @ nl) bs) = nl @ join (nl @ nl @ nl) (map g bs) @ nl @ nl"
proof (induction bs)
  case Nil
  then show ?case by simp
next
  case (Cons b bs)
  show ?case
  proof (cases bs)
    case Nil
    then show ?thesis by simp
  next
    case (Cons c cs)
    with Cons.IH have "concat (map (\<lambda>b. nl @ g b @ nl @ nl) bs) =
        nl @ join (nl @ nl @ nl) (map g bs) @ nl @ nl" by simp
    then show ?thesis using Cons by simp
  qed
qed

lemma block_lines_nonempty: "block_lines repr ie \<noteq> []"
  by (simp add: block_lines_def)

lemma build_email_objects:
  assumes "es \<noteq> []" and "\<forall>e\<in>set es. is_object (summary e)"
  shows "build_email repr es =
     Inr \<lparr>subject = text ''NBER IO Digest: '' @ str_nat (length es) @ text '' new papers'',
          body = header_sentence @ text ''\<newline>''
                 @ concat (map (\<lambda>ie. text ''\<newline>'' @ block_text repr ie
                                       @ text ''\<newline>'' @ text ''\<newline>'')
                             (enumerate 1 es))\<rparr>"
proof -
  have h: "text ''This week's NBER Industrial Organization papers:\<newline>'' =
           header_sentence @ text ''\<newline>''"
    by (simp add: header_sentence_def text_def)
  show ?thesis
    using assms(1)
    by (simp add: build_email_def build_email_nonempty_def email_lines_objects[OF assms(2)]
        body_lines_text[OF block_lines_nonempty] block_text_def h del: One_nat_def)
qed



lemma nth_concat_uniform:
  "\<forall>x\<in>set xss. length x = n \<Longrightarrow> k < length xss \<Longrightarrow> j < n \<Longrightarrow>
   concat xss ! (n * k + j) = xss ! k ! j"
proof (induction xss arbitrary: k)
  case Nil
  then show ?case by simp
next
  case (Cons x xss)
  show ?case
  proof (cases k)
    case 0
    with Cons.prems show ?thesis by (simp add: nth_append)
  next
    case (Suc k')
    have "concat xss ! (n * k' + j) = xss ! k' ! j"
      using Cons.IH[of k'] Cons.prems Suc by simp
    moreover have "n * k + j = length x + (n * k' + j)"
      using Cons.prems(1) Suc by simp
    ultimately show ?thesis using Suc by (simp add: nth_append)
  qed
qed

lemma build_email_Inr_objects:
  assumes "build_email repr es = Inr r"
  shows "\<forall>e\<in>set es. is_object (summary e)"
proof (rule ccontr)
  assume "\<not> (\<forall>e\<in>set es. is_object (summary e))"
  then have ex: "\<exists>e\<in>set es. \<not> is_object (summary e)" by simp
  then have "es \<noteq> []" by auto
  then have "build_email repr es = Inl AttributeError"
    by (simp add: build_email_def build_email_nonempty_def email_lines_not_object[OF ex])
  with assms show False by simp
qed

lemma block_text_cong:
  assumes "paper e' = paper e"
    and "map_of (dict_items (summary e')) = map_of (dict_items (summary e))"
  shows "block_text repr (i, e') = block_text repr (i, e)"
proof -
  have "field_line repr (summary e') = field_line repr (summary e)"
    using assms(2) by (simp add: field_line_def fun_eq_iff)
  with assms(1) show ?thesis
    by (simp only: block_text_def block_lines_def fst_conv snd_conv)
qed

lemma map_enumerate_cong:
  assumes "length xs = length ys"
    and "\<And>k. k < length ys \<Longrightarrow> f (n + k, xs ! k) = f (n + k, ys ! k)"
  shows "map f (enumerate n xs) = map f (enumerate n ys)"
proof (rule nth_equalityI)
  show "length (map f (enumerate n xs)) = length (map f (enumerate n ys))"
    using assms(1) by simp
next
  fix i assume "i < length (map f (enumerate n xs))"
  then have "i < length ys" using assms(1) by simp
  then show "map f (enumerate n xs) ! i = map f (enumerate n ys) ! i"
    using assms by (simp add: nth_enumerate_eq)
qed

text \<open>
  C6. For a non-empty list of entries whose summaries are dictionaries, the subject carries
  the number of entries, and the body is the header sentence followed, for each entry in
  the order of the list, by its numbered block: number and title, URL, and the four
  labelled lines in the order of the schema. The lines are found by key, so two lists
  whose dictionaries give the same value for every key yield the same report, whatever
  the order of the keys inside the dictionaries.
\<close>
theorem build_email_blocks_in_order:
  assumes "es \<noteq> []" and "\<forall>e\<in>set es. is_object (summary e)"
  shows "build_email repr es =
     Inr \<lparr>subject = text ''NBER IO Digest: '' @ str_nat (length es) @ text '' new papers'',
          body = header_sentence @ text ''\<newline>''
                 @ concat (map (\<lambda>ie. text ''\<newline>'' @ block_text repr ie
                                       @ text ''\<newline>\<newline>'')
                             (enumerate 1 es))\<rparr>
   \<and> (\<forall>es' :: DigestEntry list. length es' = length es
         \<and> (\<forall>k<length es. paper (es' ! k) = paper (es ! k)
                \<and> is_object (summary (es' ! k))
                \<and> map_of (dict_items (summary (es' ! k))) = map_of (dict_items (summary (es ! k))))
         \<longrightarrow> build_email repr es' = build_email repr es)"
proof (intro conjI allI impI)
  have nl2: "text ''\<newline>\<newline>'' = text ''\<newline>'' @ text ''\<newline>''"
    by (simp add: text_def)
  show first: "build_email repr es =
     Inr \<lparr>subject = text ''NBER IO Digest: '' @ str_nat (length es) @ text '' new papers'',
          body = header_sentence @ text ''\<newline>''
                 @ concat (map (\<lambda>ie. text ''\<newline>'' @ block_text repr ie
                                       @ text ''\<newline>\<newline>'')
                             (enumerate 1 es))\<rparr>"
    unfolding nl2 by (rule build_email_objects[OF assms])
  fix es' :: "DigestEntry list"
  assume a: "length es' = length es
         \<and> (\<forall>k<length es. paper (es' ! k) = paper (es ! k)
                \<and> is_object (summary (es' ! k))
                \<and> map_of (dict_items (summary (es' ! k))) = map_of (dict_items (summary (es ! k))))"
  then have len: "length es' = length es" by simp
  with assms(1) have ne: "es' \<noteq> []" by auto
  have obj: "\<forall>e\<in>set es'. is_object (summary e)"
  proof
    fix e assume "e \<in> set es'"
    then obtain k where "k < length es'" and "es' ! k = e" by (auto simp: in_set_conv_nth)
    with a show "is_object (summary e)" by auto
  qed
  have "map (\<lambda>ie. text ''\<newline>'' @ block_text repr ie @ text ''\<newline>'' @ text ''\<newline>'')
            (enumerate 1 es') =
        map (\<lambda>ie. text ''\<newline>'' @ block_text repr ie @ text ''\<newline>'' @ text ''\<newline>'')
            (enumerate 1 es)"
  proof (rule map_enumerate_cong[OF len])
    fix k assume "k < length es"
    with a have "paper (es' ! k) = paper (es ! k)"
      and "map_of (dict_items (summary (es' ! k))) = map_of (dict_items (summary (es ! k)))"
      by blast+
    then have "block_text repr (1 + k, es' ! k) = block_text repr (1 + k, es ! k)"
      by (rule block_text_cong)
    then show "text ''\<newline>'' @ block_text repr (1 + k, es' ! k) @ text ''\<newline>'' @ text ''\<newline>'' =
          text ''\<newline>'' @ block_text repr (1 + k, es ! k) @ text ''\<newline>'' @ text ''\<newline>''"
      by (simp only:)
  qed
  then show "build_email repr es' = build_email repr es"
    by (simp add: build_email_objects[OF ne obj] build_email_objects[OF assms] len)
qed


theorem build_email_blocks_in_order_witness:
  "[entry_a, entry_b] \<noteq> [] \<and> is_object (summary entry_a) \<and> is_object (summary entry_b)
   \<and> build_email no_repr [entry_a, entry_b] =
       Inr \<lparr>subject = text ''NBER IO Digest: 2 new papers'',
            body = text ''This week's NBER Industrial Organization papers:\<newline>\<newline>1. Merger Effects in Airlines\<newline>URL: https://x/1\<newline>Research question: Q\<newline>Method: M\<newline>Data: D\<newline>Main result: R\<newline>\<newline>\<newline>2. Entry and Prices\<newline>URL: https://x/2\<newline>Research question: N/A\<newline>Method: M2\<newline>Data: N/A\<newline>Main result: R2\<newline>\<newline>''\<rparr>
   \<and> build_email no_repr [entry_a, entry_b'] = build_email no_repr [entry_a, entry_b]"
proof -
  have h1: "[entry_a, entry_b] \<noteq> []" by simp
  have h2: "\<forall>e\<in>set [entry_a, entry_b]. is_object (summary e)"
    by (simp add: entry_a_def entry_b_def summary_a_def summary_b_def is_object_def)
  have m: "map_of (dict_items summary_b') = map_of (dict_items summary_b)"
    by (rule ext) (simp add: summary_b_def summary_b'_def dict_items_def text_def)
  have h3: "length [entry_a, entry_b'] = length [entry_a, entry_b]
         \<and> (\<forall>k<length [entry_a, entry_b]. paper ([entry_a, entry_b'] ! k) = paper ([entry_a, entry_b] ! k)
                \<and> is_object (summary ([entry_a, entry_b'] ! k))
                \<and> map_of (dict_items (summary ([entry_a, entry_b'] ! k))) = map_of (dict_items (summary ([entry_a, entry_b] ! k))))"
  proof (intro conjI allI impI)
    fix k assume "k < length [entry_a, entry_b]"
    then have k: "k = 0 \<or> k = 1" by auto
    from k show "paper ([entry_a, entry_b'] ! k) = paper ([entry_a, entry_b] ! k)"
      by (auto simp: entry_b_def entry_b'_def)
    from k show "is_object (summary ([entry_a, entry_b'] ! k))"
      by (auto simp: entry_a_def entry_b'_def summary_a_def summary_b'_def is_object_def)
    from k m show "map_of (dict_items (summary ([entry_a, entry_b'] ! k))) = map_of (dict_items (summary ([entry_a, entry_b] ! k)))"
      by (auto simp: entry_b_def entry_b'_def)
  qed simp
  have v: "header_sentence @ text ''\<newline>''
                 @ concat (map (\<lambda>ie. text ''\<newline>'' @ block_text no_repr ie
                                       @ text ''\<newline>\<newline>'')
                             (enumerate 1 [entry_a, entry_b])) = text ''This week's NBER Industrial Organization papers:\<newline>\<newline>1. Merger Effects in Airlines\<newline>URL: https://x/1\<newline>Research question: Q\<newline>Method: M\<newline>Data: D\<newline>Main result: R\<newline>\<newline>\<newline>2. Entry and Prices\<newline>URL: https://x/2\<newline>Research question: N/A\<newline>Method: M2\<newline>Data: N/A\<newline>Main result: R2\<newline>\<newline>''"
    by code_simp
  have s: "text ''NBER IO Digest: '' @ str_nat (length [entry_a, entry_b]) @ text '' new papers'' = text ''NBER IO Digest: 2 new papers''"
    by code_simp
  from build_email_blocks_in_order[OF h1 h2, of no_repr] h3
  have "build_email no_repr [entry_a, entry_b] =
     Inr \<lparr>subject = text ''NBER IO Digest: '' @ str_nat (length [entry_a, entry_b]) @ text '' new papers'',
          body = header_sentence @ text ''\<newline>''
                 @ concat (map (\<lambda>ie. text ''\<newline>'' @ block_text no_repr ie
                                       @ text ''\<newline>\<newline>'')
                             (enumerate 1 [entry_a, entry_b]))\<rparr>"
    and "build_email no_repr [entry_a, entry_b'] = build_email no_repr [entry_a, entry_b]"
    by blast+
  with h1 h2 show ?thesis unfolding v s by simp
qed

text \<open>
  C7, as stated, fails: in the report of two entries the first block is not followed by
  one blank line and the second block, but by two blank lines and the second block.
\<close>

theorem blocks_one_blank_line_counterexample:
  "build_email no_repr [entry_a, entry_b] =
     Inr \<lparr>subject = text ''NBER IO Digest: 2 new papers'', body = body_ab\<rparr>
   \<and> \<not> sublist (block_text no_repr (1, entry_a) @ text ''\<newline>\<newline>''
                  @ block_text no_repr (2, entry_b)) body_ab
   \<and> sublist (block_text no_repr (1, entry_a) @ text ''\<newline>\<newline>\<newline>''
                  @ block_text no_repr (2, entry_b)) body_ab"
  by code_simp

text \<open>
  C7, amended. The loop appends the one-character line \<open>"\n"\<close> after every block and the
  lines are joined with \<open>"\n"\<close>: for a non-empty list of entries with dictionary summaries,
  the body is the header sentence, one blank line, the blocks separated by exactly three
  newline characters (two blank lines), and two newline characters at the end.
\<close>

theorem blocks_two_blank_lines:
  assumes "es \<noteq> []" and "\<forall>e\<in>set es. is_object (summary e)"
  shows "\<exists>r. build_email repr es = Inr r
           \<and> body r = header_sentence @ text ''\<newline>\<newline>''
                       @ join (text ''\<newline>\<newline>\<newline>'') (map (block_text repr) (enumerate 1 es))
                       @ text ''\<newline>\<newline>''"
proof -
  have nl2: "text ''\<newline>\<newline>'' = text ''\<newline>'' @ text ''\<newline>''"
    and nl3: "text ''\<newline>\<newline>\<newline>'' = text ''\<newline>'' @ text ''\<newline>'' @ text ''\<newline>''"
    by (simp_all add: text_def)
  have ne: "enumerate 1 es \<noteq> []" using assms(1) by (cases es) simp_all
  show ?thesis
    unfolding nl2 nl3
    by (simp add: build_email_objects[OF assms] concat_blocks_join[OF ne] del: One_nat_def)
qed

theorem blocks_two_blank_lines_witness:
  "[entry_a, entry_b] \<noteq> [] \<and> is_object (summary entry_a) \<and> is_object (summary entry_b)
   \<and> (\<exists>r. build_email no_repr [entry_a, entry_b] = Inr r
           \<and> body r = header_sentence @ text ''\<newline>\<newline>''
                       @ join (text ''\<newline>\<newline>\<newline>'')
                           [block_text no_repr (1, entry_a), block_text no_repr (2, entry_b)]
                       @ text ''\<newline>\<newline>'')"
proof -
  have h1: "[entry_a, entry_b] \<noteq> []" by simp
  have oa: "is_object (summary entry_a)" and ob: "is_object (summary entry_b)"
    by (simp_all add: entry_a_def entry_b_def summary_a_def summary_b_def is_object_def)
  then have h2: "\<forall>e\<in>set [entry_a, entry_b]. is_object (summary e)" by simp
  have e: "enumerate 1 [entry_a, entry_b] = [(1, entry_a), (2, entry_b)]" by simp
  from blocks_two_blank_lines[OF h1 h2, of no_repr] oa ob show ?thesis
    unfolding e by simp
qed

lemma block_lines_nth_field:
  "j < length schema \<Longrightarrow>
   (block_lines repr (i, e) @ [nl]) ! (2 + j) = field_line repr (summary e) (schema ! j)"
  by (simp add: block_lines_def nth_append)

lemma length_block_lines: "length (block_lines repr ie @ [nl]) = 7"
  by (simp add: block_lines_def schema_def)

text \<open>
  C4. In a report that the composer returns, the labelled line of schema field \<open>j\<close> in the
  block of entry \<open>k\<close> (line \<open>7 * k + 3 + j\<close> of the lines that are joined into the body) is
  the label followed by the placeholder \<open>N/A\<close> when the entry's dictionary has no such key,
  and by the value itself when it has one: a text value as it is, any other value as the
  interpreter prints it.
\<close>

theorem field_lines_value_or_na:
  assumes "build_email repr es = Inr r" and "k < length es" and "j < length schema"
  shows "\<exists>ls d.
           email_lines repr 1 es [text ''This week's NBER Industrial Organization papers:\<newline>'']
             = Inr ls
           \<and> body r = join (text ''\<newline>'') ls
           \<and> summary (es ! k) = JObject d
           \<and> ls ! (7 * k + 3 + j) =
               snd (schema ! j) @
               (case map_of d (fst (schema ! j)) of
                  None \<Rightarrow> text ''N/A''
                | Some (JString s) \<Rightarrow> s
                | Some v \<Rightarrow> repr v)"
proof -
  let ?h = "text ''This week's NBER Industrial Organization papers:\<newline>''"
  let ?bs = "map (\<lambda>ie. block_lines repr ie @ [text ''\<newline>'']) (enumerate 1 es)"
  from assms(2) have ne: "es \<noteq> []" by auto
  have obj: "\<forall>e\<in>set es. is_object (summary e)"
    using assms(1) by (rule build_email_Inr_objects)
  have ls: "email_lines repr 1 es [?h] = Inr ([?h] @ concat ?bs)"
    by (rule email_lines_objects[OF obj])
  have b: "body r = join (text ''\<newline>'') ([?h] @ concat ?bs)"
    using assms(1) ne unfolding build_email_def build_email_nonempty_def ls by auto
  from obj assms(2) have "is_object (summary (es ! k))" by simp
  then obtain d where d: "summary (es ! k) = JObject d"
    by (cases "summary (es ! k)") (simp_all add: is_object_def)
  have u: "\<forall>x\<in>set ?bs. length x = 7"
    by (auto simp: block_lines_def schema_def)
  have "concat ?bs ! (7 * k + (2 + j)) = ?bs ! k ! (2 + j)"
    using assms(2,3) by (intro nth_concat_uniform[OF u]) (simp_all add: schema_def)
  also have "\<dots> = (block_lines repr (1 + k, es ! k) @ [text ''\<newline>'']) ! (2 + j)"
    using assms(2) by (simp add: nth_enumerate_eq)
  also have "\<dots> = field_line repr (summary (es ! k)) (schema ! j)"
    by (rule block_lines_nth_field[OF assms(3)])
  also have "\<dots> = snd (schema ! j) @
               (case map_of d (fst (schema ! j)) of
                  None \<Rightarrow> text ''N/A''
                | Some (JString s) \<Rightarrow> s
                | Some v \<Rightarrow> repr v)"
    by (simp add: field_line_def d dict_items_def format_value_def split: option.splits json.splits)
  finally have "([?h] @ concat ?bs) ! (7 * k + 3 + j) = snd (schema ! j) @
               (case map_of d (fst (schema ! j)) of
                  None \<Rightarrow> text ''N/A''
                | Some (JString s) \<Rightarrow> s
                | Some v \<Rightarrow> repr v)"
    by (simp add: nth_Cons')
  with ls b d show ?thesis by blast
qed

theorem field_lines_value_or_na_witness:
  "build_email no_repr [entry_a, entry_b] =
     Inr \<lparr>subject = text ''NBER IO Digest: 2 new papers'', body = body_ab\<rparr>
   \<and> (1::nat) < length [entry_a, entry_b] \<and> (0::nat) < length schema \<and> (1::nat) < length schema
   \<and> (\<exists>ls. email_lines no_repr 1 [entry_a, entry_b]
               [text ''This week's NBER Industrial Organization papers:\<newline>''] = Inr ls
            \<and> body_ab = join (text ''\<newline>'') ls
            \<and> ls ! 10 = text ''Research question: N/A''
            \<and> ls ! 11 = text ''Method: M2'')"
proof -
  let ?es = "[entry_a, entry_b]"
  let ?r = "\<lparr>subject = text ''NBER IO Digest: 2 new papers'', body = body_ab\<rparr>"
  have b: "build_email no_repr ?es = Inr ?r" by code_simp
  have k: "(1::nat) < length ?es" by simp
  have j0: "(0::nat) < length schema" and j1: "(1::nat) < length schema"
    by (simp_all add: schema_def)
  have sb: "summary (?es ! 1) = summary_b" by (simp add: entry_b_def)
  from field_lines_value_or_na[OF b k j0] obtain ls d where
    ls: "email_lines no_repr 1 ?es
           [text ''This week's NBER Industrial Organization papers:\<newline>''] = Inr ls"
    and bd: "body ?r = join (text ''\<newline>'') ls"
    and d: "summary (?es ! 1) = JObject d"
    and l0: "ls ! (7 * 1 + 3 + 0) =
               snd (schema ! 0) @
               (case map_of d (fst (schema ! 0)) of
                  None \<Rightarrow> text ''N/A''
                | Some (JString s) \<Rightarrow> s
                | Some v \<Rightarrow> no_repr v)"
    by blast
  from field_lines_value_or_na[OF b k j1] obtain ls' d' where
    ls': "email_lines no_repr 1 ?es
           [text ''This week's NBER Industrial Organization papers:\<newline>''] = Inr ls'"
    and d': "summary (?es ! 1) = JObject d'"
    and l1: "ls' ! (7 * 1 + 3 + 1) =
               snd (schema ! 1) @
               (case map_of d' (fst (schema ! 1)) of
                  None \<Rightarrow> text ''N/A''
                | Some (JString s) \<Rightarrow> s
                | Some v \<Rightarrow> no_repr v)"
    by blast
  from ls ls' have same: "ls' = ls" by simp
  from d sb have dv: "d = [(text ''main_result'', JString (text ''R2'')),
              (text ''method'', JString (text ''M2''))]"
    by (simp add: summary_b_def)
  from d d' have dd: "d' = d" by simp
  have "ls ! 10 = text ''Research question: N/A''"
    using l0 unfolding dv by (simp add: schema_def text_def)
  moreover have "ls ! 11 = text ''Method: M2''"
    using l1 unfolding same dd dv by (simp add: schema_def text_def)
  ultimately show ?thesis using b k j0 j1 ls bd by auto
qed

text \<open>
  C9. The composer is a function of its list alone: it reads no state and leaves none, so
  two runs on the same list give the same subject and the same body. The report depends
  on the list only through the titles, the URLs and the four schema lines of the entries:
  lists that agree on these, in particular equal lists, give equal reports.
\<close>

theorem build_email_deterministic:
  assumes "map (digest_view repr) es = map (digest_view repr) es'"
  shows "build_email repr es = build_email repr es'"
proof -
  have len: "length es = length es'"
    using assms by (rule map_eq_imp_length_eq)
  have nth: "\<And>k. k < length es \<Longrightarrow> digest_view repr (es ! k) = digest_view repr (es' ! k)"
    using assms len by (metis nth_map)
  show ?thesis
  proof (cases "es = []")
    case True
    with len show ?thesis by simp
  next
    case False
    with len have ne': "es' \<noteq> []" by auto
    show ?thesis
    proof (cases "\<forall>e\<in>set es. is_object (summary e)")
      case True
      have obj': "\<forall>e\<in>set es'. is_object (summary e)"
      proof
        fix e assume "e \<in> set es'"
        then obtain k where k: "k < length es'" and e: "es' ! k = e"
          by (auto simp: in_set_conv_nth)
        from k len True have "is_object (summary (es ! k))" by simp
        with nth[of k] k len e show "is_object (summary e)"
          by (simp add: digest_view_def)
      qed
      have "map (\<lambda>ie. text ''\<newline>'' @ block_text repr ie @ text ''\<newline>'' @ text ''\<newline>'')
              (enumerate 1 es) =
            map (\<lambda>ie. text ''\<newline>'' @ block_text repr ie @ text ''\<newline>'' @ text ''\<newline>'')
              (enumerate 1 es')"
      proof (rule map_enumerate_cong[OF len])
        fix k assume "k < length es'"
        with nth[of k] len have v: "digest_view repr (es ! k) = digest_view repr (es' ! k)"
          by simp
        then have "title (paper (es ! k)) = title (paper (es' ! k))"
          and "url (paper (es ! k)) = url (paper (es' ! k))"
          and "map (field_line repr (summary (es ! k))) schema =
               map (field_line repr (summary (es' ! k))) schema"
          by (simp_all only: digest_view_def prod.inject)
        then have "block_text repr (1 + k, es ! k) = block_text repr (1 + k, es' ! k)"
          by (simp only: block_text_def block_lines_def fst_conv snd_conv)
        then show "text ''\<newline>'' @ block_text repr (1 + k, es ! k) @ text ''\<newline>'' @ text ''\<newline>'' =
              text ''\<newline>'' @ block_text repr (1 + k, es' ! k) @ text ''\<newline>'' @ text ''\<newline>''"
          by (simp only:)
      qed
      then show ?thesis
        by (simp add: build_email_objects[OF False True] build_email_objects[OF ne' obj'] len)
    next
      case no: False
      then obtain k where k: "k < length es" and n: "\<not> is_object (summary (es ! k))"
        by (auto simp: in_set_conv_nth)
      with nth[of k] have "\<not> is_object (summary (es' ! k))"
        by (simp add: digest_view_def)
      with k len have ex': "\<exists>e\<in>set es'. \<not> is_object (summary e)"
        by (metis nth_mem)
      from no have ex: "\<exists>e\<in>set es. \<not> is_object (summary e)" by simp
      show ?thesis
        using False ne'
        by (simp add: build_email_def build_email_nonempty_def
            email_lines_not_object[OF ex] email_lines_not_object[OF ex'])
    qed
  qed
qed

theorem build_email_deterministic_witness:
  "map (digest_view no_repr) [entry_a, entry_b] = map (digest_view no_repr) [entry_a, entry_b']
   \<and> [entry_a, entry_b] \<noteq> [entry_a, entry_b']
   \<and> build_email no_repr [entry_a, entry_b] = build_email no_repr [entry_a, entry_b']"
proof -
  have h: "map (digest_view no_repr) [entry_a, entry_b] =
           map (digest_view no_repr) [entry_a, entry_b']"
    by code_simp
  have d: "[entry_a, entry_b] \<noteq> [entry_a, entry_b']"
    by (simp add: entry_b_def entry_b'_def summary_b_def summary_b'_def text_def)
  from build_email_deterministic[OF h] h d show ?thesis by simp
qed

section \<open>The extractor and the loop\<close>

lemma build_email_not_object:
  assumes "\<not> is_object (summary e)"
  shows "build_email repr (es @ e # es') = Inl AttributeError"
proof -
  have ex: "\<exists>x\<in>set (es @ e # es'). \<not> is_object (summary x)" using assms by auto
  show ?thesis
    by (simp add: build_email_def build_email_nonempty_def email_lines_not_object[OF ex])
qed

text \<open>
  C10. \<open>parse_groq_json\<close> returns whatever the decoder returns and never tests that it
  is a dictionary. When the candidate text of a reply decodes to a value that is no
  dictionary, the extractor returns that value, the loop of \<open>main\<close> appends it as the
  summary of an entry, and the composer fails on any list with such an entry: the lookup
  raises \<open>AttributeError\<close>, which nothing in \<open>main\<close> catches, so the run ends without a
  report.
\<close>

theorem parse_groq_json_no_mapping_check:
  assumes "json_loads (candidate raw) = Inr v" and "\<not> is_object v"
    and "create w (chat_request p) = (Inr raw, w')"
  shows "parse_groq_json raw = Inr v
       \<and> summarize_with_groq create w p = (Inr v, w')
       \<and> summarize_papers create print_line w [p] [] [] =
           (Inr [\<lparr>paper = p, summary = v\<rparr>], [], w')
       \<and> build_email repr (es @ \<lparr>paper = p, summary = v\<rparr> # es') = Inl AttributeError
       \<and> (fetch_new_io_papers soup feed = [p] \<longrightarrow>
            main create print_line send soup repr w feed = (Inl AttributeError, [], w'))"
proof -
  have 1: "parse_groq_json raw = Inr v"
    using assms(1) by (simp add: parse_groq_json_def)
  have 2: "summarize_with_groq create w p = (Inr v, w')"
    using assms(3) 1 by (simp add: summarize_with_groq_def)
  have 3: "summarize_papers create print_line w [p] [] [] =
           (Inr [\<lparr>paper = p, summary = v\<rparr>], [], w')"
    using 2 by simp
  have 4: "build_email repr (es @ \<lparr>paper = p, summary = v\<rparr> # es') = Inl AttributeError"
    by (rule build_email_not_object) (simp add: assms(2))
  have 5: "build_email repr [\<lparr>paper = p, summary = v\<rparr>] = Inl AttributeError"
    using build_email_not_object[of "\<lparr>paper = p, summary = v\<rparr>" repr "[]" "[]"] assms(2)
    by simp
  have 6: "fetch_new_io_papers soup feed = [p] \<longrightarrow>
            main create print_line send soup repr w feed = (Inl AttributeError, [], w')"
  proof
    assume f: "fetch_new_io_papers soup feed = [p]"
    show "main create print_line send soup repr w feed = (Inl AttributeError, [], w')"
      unfolding main_def f 3 by (simp add: 5)
  qed
  from 1 2 3 4 6 show ?thesis by simp
qed

theorem parse_groq_json_no_mapping_check_witness:
  "json_loads (candidate (text ''[1, 2]'')) = Inr (JArray [JInt 1, JInt 2])
   \<and> \<not> is_object (JArray [JInt 1, JInt 2])
   \<and> scripted [Inr (text ''[1, 2]'')] (chat_request paper_b) = (Inr (text ''[1, 2]''), [])
   \<and> parse_groq_json (text ''[1, 2]'') = Inr (JArray [JInt 1, JInt 2])
   \<and> summarize_with_groq scripted [Inr (text ''[1, 2]'')] paper_b = (Inr (JArray [JInt 1, JInt 2]), [])
   \<and> summarize_papers scripted print_ok [Inr (text ''[1, 2]'')] [paper_b] [] [] =
        (Inr [\<lparr>paper = paper_b, summary = JArray [JInt 1, JInt 2]\<rparr>], [], [])
   \<and> build_email no_repr ([entry_a] @ \<lparr>paper = paper_b, summary = JArray [JInt 1, JInt 2]\<rparr> # []) =
        Inl AttributeError
   \<and> fetch_new_io_papers soup_b feed_b = [paper_b]
   \<and> main scripted print_ok send_ok soup_b no_repr [Inr (text ''[1, 2]'')] feed_b =
        (Inl AttributeError, [], [])"
proof -
  have h1: "json_loads (candidate (text ''[1, 2]'')) = Inr (JArray [JInt 1, JInt 2])"
    by code_simp
  have h2: "\<not> is_object (JArray [JInt 1, JInt 2])" by (simp add: is_object_def)
  have h3: "scripted [Inr (text ''[1, 2]'')] (chat_request paper_b) = (Inr (text ''[1, 2]''), [])"
    by simp
  have h4: "fetch_new_io_papers soup_b feed_b = [paper_b]" by code_simp
  from parse_groq_json_no_mapping_check[where create = scripted and send = send_ok
      and print_line = print_ok and soup = soup_b and feed = feed_b
      and w = "[Inr (text ''[1, 2]'')]" and p = paper_b and repr = no_repr
      and es = "[entry_a]" and es' = "[]", OF h1 h2 h3] h1 h2 h3 h4
  show ?thesis by blast
qed








section \<open>The fence pattern\<close>





























lemma first_fence_here: "fence_at (x # xs) = Some g \<Longrightarrow> first_fence (x # xs) = Some g"
  by simp



























end
